theory Spec2Isabelle
  imports Complex_Main
begin

section \<open>Python strings\<close>

text \<open>
  A Python \<open>str\<close> is a sequence of Unicode code points, so it is modelled as a list of
  naturals: \<open>len\<close> is \<open>length\<close> and \<open>s[:n]\<close> is \<open>take n s\<close>. A literal of the source is
  written \<open>lit ''...''\<close> when it is ASCII; the pound sign U+00A3 and the letter U+00C2
  (the first character of a pound sign decoded with the wrong charset) are written by
  their code points.
\<close>

type_synonym pystr = "nat list"

definition lit :: "string \<Rightarrow> pystr" where
  "lit s = map of_char s"

definition pound :: nat where
  "pound = 163"


definition slash :: nat where
  "slash = 47"

definition hash_sign :: nat where
  "hash_sign = 35"

text \<open>\<open>s.startswith(p)\<close>.\<close>

definition startswith :: "pystr \<Rightarrow> pystr \<Rightarrow> bool" where
  "startswith s p = (take (length p) s = p)"

text \<open>\<open>s.lstrip(c)\<close> and \<open>s.rstrip(c)\<close> for a one-character argument \<open>c\<close>.\<close>

definition lstrip_char :: "nat \<Rightarrow> pystr \<Rightarrow> pystr" where
  "lstrip_char c s = dropWhile (\<lambda>x. x = c) s"

definition rstrip_char :: "nat \<Rightarrow> pystr \<Rightarrow> pystr" where
  "rstrip_char c s = rev (dropWhile (\<lambda>x. x = c) (rev s))"

text \<open>\<open>s.replace(c, '')\<close> for a one-character \<open>c\<close>: every occurrence is removed.\<close>

definition remove_char :: "nat \<Rightarrow> pystr \<Rightarrow> pystr" where
  "remove_char c s = filter (\<lambda>x. x \<noteq> c) s"

text \<open>
  The code points for which \<open>str.isspace\<close> holds; \<open>s.strip()\<close> removes them from both
  ends.
\<close>

definition is_space :: "nat \<Rightarrow> bool" where
  "is_space c = ((9 \<le> c \<and> c \<le> 13) \<or> (28 \<le> c \<and> c \<le> 32) \<or> c = 133 \<or> c = 160
     \<or> c = 5760 \<or> (8192 \<le> c \<and> c \<le> 8202) \<or> c = 8232 \<or> c = 8233 \<or> c = 8239
     \<or> c = 8287 \<or> c = 12288)"

definition strip :: "pystr \<Rightarrow> pystr" where
  "strip s = rev (dropWhile is_space (rev (dropWhile is_space s)))"

text \<open>The sentinel \<open>'N/A'\<close> of the three scripts.\<close>

definition na :: pystr where
  "na = lit ''N/A''"

section \<open>Field normalisation\<close>

subsection \<open>Ratings (book\_scraper.py, book\_scraper2.py)\<close>

text \<open>
  \<open>rating_map\<close> is the dictionary of both book scrapers, in the order of the source;
  \<open>rating_map.get(rating_text, 0)\<close> is the lookup with default \<open>0\<close>, where the key may be
  \<open>None\<close>.
\<close>

definition rating_map :: "(pystr option \<times> int) list" where
  "rating_map =
     [(Some (lit ''One''), 1),
      (Some (lit ''Two''), 2),
      (Some (lit ''Three''), 3),
      (Some (lit ''Four''), 4),
      (Some (lit ''Five''), 5)]"

definition rating_get :: "pystr option \<Rightarrow> int" where
  "rating_get rating_text = (case map_of rating_map rating_text of None \<Rightarrow> 0 | Some r \<Rightarrow> r)"

text \<open>\<open>rating_class[1] if len(rating_class) > 1 else None\<close>.\<close>

definition rating_text_of :: "pystr list \<Rightarrow> pystr option" where
  "rating_text_of rating_class =
     (if length rating_class > 1 then Some (rating_class ! 1) else None)"

text \<open>
  book\_scraper.py, lines 71 to 78: the argument is the class list of the
  \<open>p.star-rating\<close> element, \<open>None\<close> when \<open>find\<close> returned \<open>None\<close>.
\<close>

definition book_rating :: "pystr list option \<Rightarrow> int" where
  "book_rating rating_element =
     (case rating_element of
        Some rating_class \<Rightarrow> rating_get (rating_text_of rating_class)
      | None \<Rightarrow> 0)"

text \<open>book\_scraper2.py, lines 60 to 63: a missing element gives the empty class list.\<close>

definition book2_rating :: "pystr list option \<Rightarrow> int" where
  "book2_rating rating_tag =
     (let rating_classes = (case rating_tag of Some cs \<Rightarrow> cs | None \<Rightarrow> [])
      in rating_get (rating_text_of rating_classes))"

subsection \<open>Links (durex\_scraper.py)\<close>

text \<open>\<open>base_url.rstrip('/') + '/' + link.lstrip('/')\<close>.\<close>

definition join_url :: "pystr \<Rightarrow> pystr \<Rightarrow> pystr" where
  "join_url base_url link = rstrip_char slash base_url @ [slash] @ lstrip_char slash link"

text \<open>
  \<open>scrape_products\<close>, lines 81 and 82: the link after the conditional assignment. The
  sentinel stands for a container without an anchor.
\<close>

definition resolve_link :: "pystr \<Rightarrow> pystr \<Rightarrow> pystr" where
  "resolve_link link base_url =
     (if link \<noteq> na \<and> \<not> startswith link (lit ''http'') then join_url base_url link
      else link)"

text \<open>
  \<open>scrape_page_content\<close>, lines 153 to 158: the entry appended to \<open>content['links']\<close>
  for one anchor with link text \<open>text\<close> and attribute \<open>href\<close>, \<open>None\<close> when nothing is
  appended.
\<close>

definition page_link :: "pystr \<Rightarrow> pystr \<Rightarrow> pystr \<Rightarrow> (pystr \<times> pystr) option" where
  "page_link url text href =
     (if text \<noteq> [] \<and> href \<noteq> [] \<and> \<not> startswith href [hash_sign] then
        Some (text, if \<not> startswith href (lit ''http'') then join_url url href else href)
      else None)"

section \<open>Exceptions and floats\<close>

text \<open>
  The subclasses of \<open>requests.exceptions.RequestException\<close> that \<open>requests.get\<close> and
  \<open>raise_for_status\<close> raise, and the exceptions of the three scripts. An exception that a
  function lets escape is the \<open>Inl\<close> of its result.
\<close>

datatype request_exception = Timeout | ConnectionError | HTTPError nat

datatype py_exception = AttributeError | ValueError | RequestException request_exception

text \<open>
  The value of \<open>float(s)\<close>. \<open>Finite q\<close> stands for the double nearest to the rational \<open>q\<close>:
  the literal is read exactly and the rounding to 53 bits is left out. \<open>Infinite neg\<close>
  is \<open>inf\<close> or \<open>-inf\<close>.
\<close>

datatype pyfloat = Finite rat | Infinite bool | NaN

definition is_digit :: "nat \<Rightarrow> bool" where
  "is_digit c = (48 \<le> c \<and> c \<le> 57)"

text \<open>\<open>digitpart ::= digit (["_"] digit)*\<close> of the grammar of \<open>float\<close>, on ASCII digits.\<close>

fun digitpart :: "pystr \<Rightarrow> bool" where
  "digitpart [] = False"
| "digitpart [c] = is_digit c"
| "digitpart (c # d # cs) =
     (is_digit c \<and> (if d = 95 then digitpart cs else digitpart (d # cs)))"

definition digits_value :: "pystr \<Rightarrow> nat" where
  "digits_value s = foldl (\<lambda>a c. 10 * a + (c - 48)) 0 (filter is_digit s)"

definition ascii_lower :: "nat \<Rightarrow> nat" where
  "ascii_lower c = (if 65 \<le> c \<and> c \<le> 90 then c + 32 else c)"

text \<open>An optional sign: whether it is a minus, and the rest.\<close>

definition split_sign :: "pystr \<Rightarrow> bool \<times> pystr" where
  "split_sign s =
     (case s of
        [] \<Rightarrow> (False, [])
      | c # cs \<Rightarrow> if c = 45 then (True, cs) else if c = 43 then (False, cs) else (False, s))"

definition is_dot :: "nat \<Rightarrow> bool" where
  "is_dot c = (c = 46)"

definition is_exp_mark :: "nat \<Rightarrow> bool" where
  "is_exp_mark c = (c = 101 \<or> c = 69)"

text \<open>\<open>number ::= [digitpart] "." digitpart | digitpart ["."]\<close>.\<close>

definition number_ok :: "pystr \<Rightarrow> bool" where
  "number_ok m =
     (let ip = takeWhile (\<lambda>c. \<not> is_dot c) m in
      case dropWhile (\<lambda>c. \<not> is_dot c) m of
        [] \<Rightarrow> digitpart ip
      | _ # fp \<Rightarrow> ((ip = [] \<or> digitpart ip) \<and> digitpart fp) \<or> (digitpart ip \<and> fp = []))"

text \<open>The value of the mantissa \<open>m\<close> (a \<open>number\<close>) scaled by ten to the power \<open>e\<close>.\<close>

definition decimal_value :: "pystr \<Rightarrow> int \<Rightarrow> rat" where
  "decimal_value m e =
     (let fp = drop 1 (dropWhile (\<lambda>c. \<not> is_dot c) m);
          k = e - int (length (filter is_digit fp));
          n = of_nat (digits_value m)
      in if 0 \<le> k then n * 10 ^ nat k else n / 10 ^ nat (- k))"

definition finite_float :: "bool \<Rightarrow> pystr \<Rightarrow> int \<Rightarrow> pyfloat" where
  "finite_float neg m e = Finite (if neg then - decimal_value m e else decimal_value m e)"

text \<open>
  \<open>float(s)\<close> for a string: surrounding whitespace is dropped, then
  \<open>[sign] (number [("e" | "E") [sign] digitpart] | "inf" | "infinity" | "nan")\<close> is read,
  the words in any case; anything else raises \<open>ValueError\<close>. The digits are the ASCII
  digits: the other decimal digits of Unicode, which \<open>float\<close> reads as well, are not
  modelled.
\<close>

definition py_float :: "pystr \<Rightarrow> py_exception + pyfloat" where
  "py_float s =
     (let (neg, body) = split_sign (strip s);
          word = map ascii_lower body;
          m = takeWhile (\<lambda>c. \<not> is_exp_mark c) body
      in if word = lit ''inf'' \<or> word = lit ''infinity'' then Inr (Infinite neg)
         else if word = lit ''nan'' then Inr NaN
         else if \<not> number_ok m then Inl ValueError
         else (case dropWhile (\<lambda>c. \<not> is_exp_mark c) body of
                 [] \<Rightarrow> Inr (finite_float neg m 0)
               | _ # ex \<Rightarrow>
                   (let (eneg, ed) = split_sign ex
                    in if digitpart ed
                       then Inr (finite_float neg m
                                   (if eneg then - int (digits_value ed) else int (digits_value ed)))
                       else Inl ValueError)))"

section \<open>Parsed pages\<close>

text \<open>
  The parse tree is reached through \<open>find\<close> and \<open>find_all\<close> only, so a container is
  modelled by what these queries return on it. An element's text is the list of its text
  nodes in document order: \<open>.text\<close> joins them, \<open>get_text(strip=True)\<close> strips each
  one, drops the empty ones and joins the rest.
\<close>

definition text_of :: "pystr list \<Rightarrow> pystr" where
  "text_of strings = concat strings"

definition get_text_strip :: "pystr list \<Rightarrow> pystr" where
  "get_text_strip strings = concat (filter (\<lambda>s. s \<noteq> []) (map strip strings))"

text \<open>
  An \<open>article.product_pod\<close>: the first \<open>h3\<close> with its first \<open>a\<close> and that anchor's
  \<open>title\<close> attribute, the text nodes of the first \<open>p.price_color\<close>, and the class list of
  the first \<open>p.star-rating\<close>; \<open>None\<close> where \<open>find\<close> returns \<open>None\<close> or the attribute is
  absent.
\<close>

datatype anchor = Anchor (a_title: "pystr option")

datatype heading = Heading (h_anchor: "anchor option")

record book_node =
  bn_h3 :: "heading option"
  bn_price :: "pystr list option"
  bn_rating :: "pystr list option"

record book =
  b_title :: pystr
  b_price :: pyfloat
  b_rating :: int

text \<open>
  A candidate element of durex\_scraper.py: the text nodes of the first heading whose
  class matches a title keyword, of the first heading at all, of the first description
  element and of the first category element, and the \<open>href\<close> of the first anchor that
  has one.
\<close>

record product_node =
  pn_title_kw :: "pystr list option"
  pn_title_any :: "pystr list option"
  pn_desc :: "pystr list option"
  pn_href :: "pystr option"
  pn_category :: "pystr list option"

record product =
  p_title :: pystr
  p_description :: pystr
  p_category :: pystr
  p_link :: pystr

section \<open>book\_scraper.py\<close>

text \<open>
  Lines 58 and 59. \<open>book.find('h3').find('a')\<close> and \<open>title_element.get\<close> are attribute
  accesses on \<open>None\<close> when the \<open>h3\<close> or its anchor is missing: they raise
  \<open>AttributeError\<close>.
\<close>

definition book_title :: "heading option \<Rightarrow> py_exception + pystr" where
  "book_title h3 =
     (case h3 of
        None \<Rightarrow> Inl AttributeError
      | Some h \<Rightarrow>
          (case h_anchor h of
             None \<Rightarrow> Inl AttributeError
           | Some title_element \<Rightarrow>
               Inr (case a_title title_element of Some t \<Rightarrow> t | None \<Rightarrow> na)))"

text \<open>Lines 62 to 68.\<close>

definition book_price :: "pystr list option \<Rightarrow> py_exception + pyfloat" where
  "book_price price_element =
     (case price_element of
        Some strings \<Rightarrow>
          (let price_text = strip (text_of strings)
           in py_float (remove_char pound price_text))
      | None \<Rightarrow> Inr (Finite 0))"

text \<open>
  One pass of the inner loop, lines 57 to 84: the dictionary appended to \<open>books\<close>, or the
  first exception raised on the way.
\<close>

definition book_record :: "book_node \<Rightarrow> py_exception + book" where
  "book_record b =
     (case book_title (bn_h3 b) of
        Inl e \<Rightarrow> Inl e
      | Inr title \<Rightarrow>
          (case book_price (bn_price b) of
             Inl e \<Rightarrow> Inl e
           | Inr price \<Rightarrow>
               Inr \<lparr>b_title = title, b_price = price, b_rating = book_rating (bn_rating b)\<rparr>))"

fun extract_books :: "book_node list \<Rightarrow> book list \<Rightarrow> py_exception + book list" where
  "extract_books [] books = Inr books"
| "extract_books (b # bs) books =
     (case book_record b of
        Inl e \<Rightarrow> Inl e
      | Inr r \<Rightarrow> extract_books bs (books @ [r]))"

text \<open>\<open>str(n)\<close> for an integer.\<close>

fun str_nat :: "nat \<Rightarrow> pystr" where
  "str_nat n = (if n < 10 then [48 + n] else str_nat (n div 10) @ [48 + n mod 10])"

declare str_nat.simps [simp del]

definition str_int :: "int \<Rightarrow> pystr" where
  "str_int i = (if i < 0 then 45 # str_nat (nat (- i)) else str_nat (nat i))"

text \<open>Line 36.\<close>

definition page_url :: "pystr \<Rightarrow> int \<Rightarrow> pystr" where
  "page_url url page =
     (if page > 1 then url @ lit ''/catalogue/page-'' @ str_int page @ lit ''.html''
      else url)"

text \<open>
  What a run does besides returning: the URLs passed to \<open>requests.get\<close>, in order, and
  the lines printed.
\<close>

datatype event =
    Scraping_page int
  | No_books_found int
  | Found_books nat int
  | Error_scraping int request_exception

record trace =
  fetched :: "pystr list"
  printed :: "event list"

text \<open>
  The remote site as the scraper sees it: \<open>requests.get\<close>, \<open>raise_for_status\<close> and
  \<open>soup.find_all('article', class_='product_pod')\<close> on a URL give either a
  \<open>RequestException\<close> or the list of containers of the page.
\<close>

type_synonym book_site = "pystr \<Rightarrow> request_exception + book_node list"

text \<open>
  The loop of \<open>scrape_books\<close>, lines 34 to 90, over the pages left in the range. The
  \<open>except\<close> clause catches a \<open>RequestException\<close> only; an exception of the extraction
  leaves the function.
\<close>

fun scrape_pages ::
  "book_site \<Rightarrow> pystr \<Rightarrow> int list \<Rightarrow> trace \<Rightarrow> book list \<Rightarrow> trace \<times> (py_exception + book list)"
where
  "scrape_pages site url [] tr books = (tr, Inr books)"
| "scrape_pages site url (page # pages) tr books =
     (let tr1 = tr\<lparr>fetched := fetched tr @ [page_url url page],
                    printed := printed tr @ [Scraping_page page]\<rparr>
      in case site (page_url url page) of
           Inl e \<Rightarrow> (tr1\<lparr>printed := printed tr1 @ [Error_scraping page e]\<rparr>, Inr books)
         | Inr book_containers \<Rightarrow>
             if book_containers = []
             then (tr1\<lparr>printed := printed tr1 @ [No_books_found page]\<rparr>, Inr books)
             else (case extract_books book_containers books of
                     Inl e \<Rightarrow> (tr1, Inl e)
                   | Inr books' \<Rightarrow>
                       scrape_pages site url pages
                         (tr1\<lparr>printed := printed tr1
                                 @ [Found_books (length book_containers) page]\<rparr>)
                         books'))"

text \<open>\<open>range(1, max_pages + 1)\<close> is \<open>[1..max_pages]\<close>.\<close>

definition scrape_books :: "book_site \<Rightarrow> pystr \<Rightarrow> int \<Rightarrow> trace \<times> (py_exception + book list)" where
  "scrape_books site url max_pages =
     scrape_pages site url [1..max_pages] \<lparr>fetched = [], printed = []\<rparr> []"

text \<open>
  A page that the loop passes: its fetch succeeds, it has containers, and every container
  is extracted; \<open>rs\<close> are its records.
\<close>

definition page_yields :: "book_site \<Rightarrow> pystr \<Rightarrow> int \<Rightarrow> book list \<Rightarrow> bool" where
  "page_yields site url page rs =
     (case site (page_url url page) of
        Inl e \<Rightarrow> False
      | Inr book_containers \<Rightarrow>
          book_containers \<noteq> [] \<and> extract_books book_containers [] = Inr rs)"

text \<open>The trace after the pages \<open>ps\<close> were passed with the records \<open>rss\<close>.\<close>

definition passed :: "pystr \<Rightarrow> int list \<Rightarrow> book list list \<Rightarrow> trace \<Rightarrow> trace" where
  "passed url ps rss tr =
     tr\<lparr>fetched := fetched tr @ map (page_url url) ps,
        printed := printed tr
           @ concat (map (\<lambda>(p, rs). [Scraping_page p, Found_books (length rs) p]) (zip ps rss))\<rparr>"

section \<open>book\_scraper2.py\<close>






section \<open>durex\_scraper.py\<close>

text \<open>
  The site as \<open>get_page_content\<close> and the \<open>find_all\<close> of the caller see it: a
  \<open>RequestException\<close> or the matching elements of the parsed page.
  \<open>get_page_content\<close> returns \<open>None\<close> on the exception.
\<close>

definition get_page_content :: "(pystr \<Rightarrow> request_exception + 'a) \<Rightarrow> pystr \<Rightarrow> 'a option" where
  "get_page_content site url = (case site url of Inl e \<Rightarrow> None | Inr soup \<Rightarrow> Some soup)"

text \<open>Lines 64 to 70.\<close>

definition product_title :: "product_node \<Rightarrow> pystr" where
  "product_title element =
     (let title_elem = (case pn_title_kw element of
                          None \<Rightarrow> pn_title_any element
                        | Some e \<Rightarrow> Some e)
      in case title_elem of Some e \<Rightarrow> get_text_strip e | None \<Rightarrow> na)"

text \<open>Lines 73 to 76.\<close>

definition product_description :: "product_node \<Rightarrow> pystr" where
  "product_description element =
     (case pn_desc element of Some e \<Rightarrow> get_text_strip e | None \<Rightarrow> na)"

text \<open>Lines 79 to 82.\<close>

definition product_link :: "pystr \<Rightarrow> product_node \<Rightarrow> pystr" where
  "product_link base_url element =
     resolve_link (case pn_href element of Some href \<Rightarrow> href | None \<Rightarrow> na) base_url"

text \<open>Lines 85 and 86.\<close>

definition product_category :: "product_node \<Rightarrow> pystr" where
  "product_category element =
     (case pn_category element of Some e \<Rightarrow> get_text_strip e | None \<Rightarrow> na)"

text \<open>
  One pass of the loop of \<open>scrape_products\<close>: the records it appends to \<open>products\<close>, none
  or one (lines 88 to 94).
\<close>

definition product_records :: "pystr \<Rightarrow> product_node \<Rightarrow> product list" where
  "product_records base_url element =
     (let title = product_title element;
          description = product_description element
      in if title \<noteq> na \<or> description \<noteq> na
         then [\<lparr>p_title = title,
                p_description = (if description \<noteq> na then take 200 description else na),
                p_category = product_category element,
                p_link = product_link base_url element\<rparr>]
         else [])"

fun scrape_elements :: "pystr \<Rightarrow> product_node list \<Rightarrow> product list \<Rightarrow> product list" where
  "scrape_elements base_url [] products = products"
| "scrape_elements base_url (element # elements) products =
     scrape_elements base_url elements (products @ product_records base_url element)"

text \<open>
  \<open>scrape_products\<close>. The printed lines and the \<open>time.sleep\<close> after every tenth element
  do not change the list returned and are left out.
\<close>

definition scrape_products :: "(pystr \<Rightarrow> request_exception + product_node list) \<Rightarrow> pystr \<Rightarrow> product list" where
  "scrape_products site base_url =
     (case get_page_content site base_url of
        None \<Rightarrow> []
      | Some product_elements \<Rightarrow> scrape_elements base_url product_elements [])"

text \<open>
  The links of \<open>scrape_page_content\<close>, lines 152 to 158: \<open>anchors\<close> are the link text
  (\<open>get_text(strip=True)\<close>) and the \<open>href\<close> of the anchors that have one, in document
  order; \<open>limit=50\<close> keeps the first fifty.
\<close>

definition page_links :: "pystr \<Rightarrow> (pystr \<times> pystr) list \<Rightarrow> (pystr \<times> pystr) list" where
  "page_links url anchors =
     List.map_filter (\<lambda>(text, href). page_link url text href) (take 50 anchors)"

section \<open>Example pages\<close>

text \<open>
  Two containers of a listing page with the prices and ratings \<open>51.77\<close>, \<open>Three\<close> and
  \<open>53.74\<close>, \<open>One\<close>; a container whose anchor has no \<open>title\<close> attribute and that has
  neither price nor rating element; a container whose price text is no number; and a
  container without \<open>h3\<close>.
\<close>

definition book_T1 :: book_node where
  "book_T1 =
     \<lparr>bn_h3 = Some (Heading (Some (Anchor (Some (lit ''T1''))))),
      bn_price = Some [pound # lit ''51.77''],
      bn_rating = Some [lit ''star-rating'', lit ''Three'']\<rparr>"

definition book_T2 :: book_node where
  "book_T2 =
     \<lparr>bn_h3 = Some (Heading (Some (Anchor (Some (lit ''T2''))))),
      bn_price = Some [pound # lit ''53.74''],
      bn_rating = Some [lit ''star-rating'', lit ''One'']\<rparr>"

definition book_bare :: book_node where
  "book_bare = \<lparr>bn_h3 = Some (Heading (Some (Anchor None))), bn_price = None, bn_rating = None\<rparr>"

definition book_free :: book_node where
  "book_free =
     \<lparr>bn_h3 = Some (Heading (Some (Anchor (Some (lit ''T3''))))),
      bn_price = Some [lit ''Free''],
      bn_rating = Some [lit ''star-rating'', lit ''Two'']\<rparr>"

definition book_untitled :: book_node where
  "book_untitled =
     \<lparr>bn_h3 = None, bn_price = Some [pound # lit ''51.77''],
      bn_rating = Some [lit ''star-rating'', lit ''Three'']\<rparr>"

definition record_T1 :: book where
  "record_T1 = \<lparr>b_title = lit ''T1'', b_price = Finite (5177 / 100), b_rating = 3\<rparr>"

definition record_T2 :: book where
  "record_T2 = \<lparr>b_title = lit ''T2'', b_price = Finite (5374 / 100), b_rating = 1\<rparr>"

definition books_url :: pystr where
  "books_url = lit ''https://books.toscrape.com''"

text \<open>
  A site whose first page has the two containers and whose second page has none, and a
  site with two pages of containers whose third page times out.
\<close>

definition site_two_books :: book_site where
  "site_two_books u =
     (if u = books_url then Inr [book_T1, book_T2]
      else if u = lit ''https://books.toscrape.com/catalogue/page-2.html'' then Inr []
      else Inl (HTTPError 404))"


definition site_free :: book_site where
  "site_free u = Inr [book_free, book_T1]"

text \<open>Two candidate elements of the shop page: an empty card and a titled one.\<close>

definition card_empty :: product_node where
  "card_empty =
     \<lparr>pn_title_kw = None, pn_title_any = None, pn_desc = None,
      pn_href = None, pn_category = None\<rparr>"

definition card_titled :: product_node where
  "card_titled =
     \<lparr>pn_title_kw = None, pn_title_any = Some [lit '' Thin '', lit ''Feel''], pn_desc = None,
      pn_href = Some (lit ''/products/thin-feel''), pn_category = None\<rparr>"

definition shop_url :: pystr where
  "shop_url = lit ''https://www.durex.co.uk''"

definition shop :: "pystr \<Rightarrow> request_exception + product_node list" where
  "shop u = (if u = shop_url then Inr [card_empty, card_titled] else Inl ConnectionError)"

section \<open>Strings: auxiliary facts\<close>

lemma lit_http: "lit ''http'' = [104, 116, 116, 112]"
  by (simp add: lit_def)

lemma na_code: "na = [78, 47, 65]"
  by (simp add: na_def lit_def)

lemma startswith_iff: "startswith s p \<longleftrightarrow> (\<exists>t. s = p @ t)"
  unfolding startswith_def
  by (metis append_eq_conv_conj append_take_drop_id)





lemma rstrip_http:
  assumes "startswith b (lit ''http'')"
  shows "startswith (rstrip_char slash b @ t) (lit ''http'')"
proof -
  from assms obtain r where b: "b = lit ''http'' @ r" by (auto simp: startswith_iff)
  show ?thesis
    unfolding b rstrip_char_def
    by (simp add: dropWhile_append lit_def slash_def startswith_def)
qed

lemma startswith_http_nonempty: "startswith h (lit ''http'') \<Longrightarrow> h \<noteq> [] \<and> \<not> startswith h [hash_sign] \<and> h \<noteq> na"
  by (auto simp: startswith_iff lit_def hash_sign_def na_def)

section \<open>Claims about field normalisation\<close>

text \<open>
  C6. The rating lookup sends exactly the words \<open>One\<close>, \<open>Two\<close>, \<open>Three\<close>, \<open>Four\<close> and
  \<open>Five\<close> to 1 to 5, compared as they are written, and every other key to 0, the key
  \<open>None\<close> included; a missing rating element and a class list with fewer than two
  entries give the rating 0 in both book scrapers, and a longer class list is rated by
  its second entry.
\<close>

theorem rating_normalisation:
  "rating_get (Some (lit ''One'')) = 1
   \<and> rating_get (Some (lit ''Two'')) = 2
   \<and> rating_get (Some (lit ''Three'')) = 3
   \<and> rating_get (Some (lit ''Four'')) = 4
   \<and> rating_get (Some (lit ''Five'')) = 5
   \<and> (t \<notin> {Some (lit ''One''), Some (lit ''Two''), Some (lit ''Three''), Some (lit ''Four''),
             Some (lit ''Five'')} \<longrightarrow> rating_get t = 0)
   \<and> rating_get None = 0
   \<and> book_rating None = 0 \<and> book2_rating None = 0
   \<and> (length cs < 2 \<longrightarrow> book_rating (Some cs) = 0 \<and> book2_rating (Some cs) = 0)
   \<and> (2 \<le> length cs \<longrightarrow> book_rating (Some cs) = rating_get (Some (cs ! 1))
                          \<and> book2_rating (Some cs) = rating_get (Some (cs ! 1)))"
proof -
  have five: "rating_get (Some (lit ''One'')) = 1 \<and> rating_get (Some (lit ''Two'')) = 2
    \<and> rating_get (Some (lit ''Three'')) = 3 \<and> rating_get (Some (lit ''Four'')) = 4
    \<and> rating_get (Some (lit ''Five'')) = 5"
    by (simp add: rating_get_def rating_map_def lit_def)
  have other: "t \<notin> {Some (lit ''One''), Some (lit ''Two''), Some (lit ''Three''),
      Some (lit ''Four''), Some (lit ''Five'')} \<longrightarrow> rating_get t = 0"
    by (simp add: rating_get_def rating_map_def)
  have none: "rating_get None = 0"
    by (simp add: rating_get_def rating_map_def)
  have absent: "book_rating None = 0 \<and> book2_rating None = 0"
    by (simp add: book_rating_def book2_rating_def rating_text_of_def none)
  have short: "length cs < 2 \<longrightarrow> book_rating (Some cs) = 0 \<and> book2_rating (Some cs) = 0"
    by (simp add: book_rating_def book2_rating_def rating_text_of_def none)
  have long: "2 \<le> length cs \<longrightarrow> book_rating (Some cs) = rating_get (Some (cs ! 1))
      \<and> book2_rating (Some cs) = rating_get (Some (cs ! 1))"
    by (simp add: book_rating_def book2_rating_def rating_text_of_def)
  from five other none absent short long show ?thesis by blast
qed

theorem rating_normalisation_witness:
  "Some (lit ''three'') \<notin> {Some (lit ''One''), Some (lit ''Two''), Some (lit ''Three''),
       Some (lit ''Four''), Some (lit ''Five'')}
   \<and> rating_get (Some (lit ''three'')) = 0
   \<and> book_rating (Some [lit ''star-rating'']) = 0
   \<and> book2_rating (Some [lit ''star-rating'']) = 0
   \<and> book_rating (Some [lit ''star-rating'', lit ''Three'']) = 3
   \<and> book2_rating (Some [lit ''star-rating'', lit ''Three'']) = 3"
  using rating_normalisation [of "Some (lit ''three'')" "[lit ''star-rating'']"]
    rating_normalisation [of "Some (lit ''three'')" "[lit ''star-rating'', lit ''Three'']"]
  by (simp add: lit_def)




text \<open>
  C9, as the code has it. Resolving twice against the same base URL is resolving once,
  for every href, when the base URL begins with \<open>http\<close>, and for every base URL when
  the href does.
\<close>

theorem resolve_link_idempotent_http_base:
  "startswith b (lit ''http'') \<or> startswith x (lit ''http'') \<Longrightarrow>
     resolve_link (resolve_link x b) b = resolve_link x b"
  using rstrip_http[of b] by (auto simp: resolve_link_def join_url_def)

theorem resolve_link_idempotent_http_base_witness:
  "startswith (lit ''https://www.durex.co.uk/'') (lit ''http'')
   \<and> resolve_link (resolve_link (lit ''/products'') (lit ''https://www.durex.co.uk/''))
         (lit ''https://www.durex.co.uk/'')
       = resolve_link (lit ''/products'') (lit ''https://www.durex.co.uk/'')"
  using resolve_link_idempotent_http_base
    [of "lit ''https://www.durex.co.uk/''" "lit ''/products''"]
  by (simp add: startswith_def lit_def)

text \<open>
  C9 as stated fails for a base URL that does not begin with the lower-case letters
  \<open>http\<close>: the resolved link is then taken for a relative one and joined onto the base
  again.
\<close>

theorem resolve_link_not_idempotent:
  "resolve_link (resolve_link (lit ''a'') (lit ''HTTP://EXAMPLE.COM'')) (lit ''HTTP://EXAMPLE.COM'')
     \<noteq> resolve_link (lit ''a'') (lit ''HTTP://EXAMPLE.COM'')"
  by (simp add: resolve_link_def join_url_def startswith_def lit_def na_def rstrip_char_def lstrip_char_def slash_def)

text \<open>
  C10. Whether an href is absolute is decided by its first four characters: an href
  that begins with \<open>http\<close> is returned unchanged by both functions, \<open>httpfoo\<close>
  included; an href that does not (and is not the sentinel of \<open>scrape_products\<close>, or
  empty or an in-page anchor in \<open>scrape_page_content\<close>) is joined onto the base URL,
  \<open>ftp://host/x\<close> included.
\<close>

theorem http_prefix_test:
  "startswith href (lit ''http'') = (take 4 href = lit ''http'')
   \<and> (startswith href (lit ''http'') \<longrightarrow>
        resolve_link href base = href
        \<and> (text \<noteq> [] \<longrightarrow> page_link base text href = Some (text, href)))
   \<and> (\<not> startswith href (lit ''http'') \<and> href \<noteq> na \<longrightarrow>
        resolve_link href base = join_url base href)
   \<and> (\<not> startswith href (lit ''http'') \<and> href \<noteq> [] \<and> \<not> startswith href [hash_sign]
        \<and> text \<noteq> [] \<longrightarrow>
        page_link base text href = Some (text, join_url base href))
   \<and> resolve_link (lit ''httpfoo'') base = lit ''httpfoo''
   \<and> resolve_link (lit ''ftp://host/x'') base
       = rstrip_char slash base @ lit ''/ftp://host/x''"
proof -
  have len: "length (lit ''http'') = 4"
    by (simp add: lit_def)
  have a: "startswith href (lit ''http'') = (take 4 href = lit ''http'')"
    unfolding startswith_def len by (rule refl)
  have b: "startswith href (lit ''http'') \<longrightarrow>
        resolve_link href base = href
        \<and> (text \<noteq> [] \<longrightarrow> page_link base text href = Some (text, href))"
    using startswith_http_nonempty[of href]
    by (simp add: resolve_link_def page_link_def)
  have c: "\<not> startswith href (lit ''http'') \<and> href \<noteq> na \<longrightarrow>
        resolve_link href base = join_url base href"
    by (simp add: resolve_link_def)
  have d: "\<not> startswith href (lit ''http'') \<and> href \<noteq> [] \<and> \<not> startswith href [hash_sign]
        \<and> text \<noteq> [] \<longrightarrow>
        page_link base text href = Some (text, join_url base href)"
    by (simp add: page_link_def)
  have e: "resolve_link (lit ''httpfoo'') base = lit ''httpfoo''"
    by (simp add: resolve_link_def startswith_def lit_def)
  have f: "resolve_link (lit ''ftp://host/x'') base
       = rstrip_char slash base @ lit ''/ftp://host/x''"
    by (simp add: resolve_link_def join_url_def startswith_def lit_def na_def lstrip_char_def slash_def)
  from a b c d e f show ?thesis by blast
qed

theorem http_prefix_test_witness:
  "startswith (lit ''https://a/b'') (lit ''http'')
   \<and> resolve_link (lit ''https://a/b'') (lit ''https://www.durex.co.uk'') = lit ''https://a/b''
   \<and> page_link (lit ''https://www.durex.co.uk'') (lit ''Shop'') (lit ''https://a/b'')
       = Some (lit ''Shop'', lit ''https://a/b'')
   \<and> \<not> startswith (lit ''HTTPS://a/b'') (lit ''http'')
   \<and> resolve_link (lit ''HTTPS://a/b'') (lit ''https://www.durex.co.uk'')
       = join_url (lit ''https://www.durex.co.uk'') (lit ''HTTPS://a/b'')
   \<and> page_link (lit ''https://www.durex.co.uk'') (lit ''Shop'') (lit ''HTTPS://a/b'')
       = Some (lit ''Shop'', join_url (lit ''https://www.durex.co.uk'') (lit ''HTTPS://a/b''))"
  using http_prefix_test [of "lit ''https://a/b''" "lit ''https://www.durex.co.uk''" "lit ''Shop''"]
    http_prefix_test [of "lit ''HTTPS://a/b''" "lit ''https://www.durex.co.uk''" "lit ''Shop''"]
  by (simp add: startswith_def lit_def na_def hash_sign_def)

section \<open>The book scraper: auxiliary facts\<close>

lemmas float_defs = py_float_def strip_def is_space_def split_sign_def lit_def ascii_lower_def
  number_ok_def is_dot_def is_exp_mark_def is_digit_def finite_float_def decimal_value_def
  digits_value_def Let_def

lemma extract_books_acc:
  "extract_books bs acc = (case extract_books bs [] of Inl e \<Rightarrow> Inl e | Inr rs \<Rightarrow> Inr (acc @ rs))"
proof (induction bs arbitrary: acc)
  case Nil
  show ?case by simp
next
  case (Cons b bs)
  show ?case
  proof (cases "book_record b")
    case (Inl e)
    then show ?thesis by simp
  next
    case (Inr r)
    show ?thesis
      using Cons.IH [of "acc @ [r]"] Cons.IH [of "[r]"]
      by (simp add: Inr split: sum.splits)
  qed
qed

lemma extract_books_length:
  "extract_books bs acc = Inr rs \<Longrightarrow> length rs = length acc + length bs"
proof (induction bs arbitrary: acc)
  case Nil
  then show ?case by simp
next
  case (Cons b bs)
  then show ?case
    by (cases "book_record b") auto
qed

lemma scrape_pages_fetched:
  "\<exists>k\<le>length pages. fetched (fst (scrape_pages site url pages tr books))
      = fetched tr @ map (page_url url) (take k pages)"
proof (induction pages arbitrary: tr books)
  case Nil
  show ?case by simp
next
  case (Cons page pages)
  let ?tr1 = "tr\<lparr>fetched := fetched tr @ [page_url url page],
                  printed := printed tr @ [Scraping_page page]\<rparr>"
  have one: "fetched tr @ [page_url url page]
      = fetched tr @ map (page_url url) (take (Suc 0) (page # pages))"
    by simp
  show ?case
  proof (cases "site (page_url url page)")
    case (Inl e)
    then have "fetched (fst (scrape_pages site url (page # pages) tr books))
        = fetched tr @ map (page_url url) (take (Suc 0) (page # pages))"
      by (simp add: Let_def)
    then show ?thesis by (intro exI [of _ "Suc 0"]) simp
  next
    case (Inr cs)
    show ?thesis
    proof (cases "cs = []")
      case True
      with Inr have "fetched (fst (scrape_pages site url (page # pages) tr books))
          = fetched tr @ map (page_url url) (take (Suc 0) (page # pages))"
        by (simp add: Let_def)
      then show ?thesis by (intro exI [of _ "Suc 0"]) simp
    next
      case False
      show ?thesis
      proof (cases "extract_books cs books")
        case (Inl e)
        with Inr False have "fetched (fst (scrape_pages site url (page # pages) tr books))
            = fetched tr @ map (page_url url) (take (Suc 0) (page # pages))"
          by (simp add: Let_def)
        then show ?thesis by (intro exI [of _ "Suc 0"]) simp
      next
        case (Inr books')
        let ?tr2 = "?tr1\<lparr>printed := printed ?tr1 @ [Found_books (length cs) page]\<rparr>"
        from Cons.IH [of ?tr2 books'] obtain k where k: "k \<le> length pages"
          and f: "fetched (fst (scrape_pages site url pages ?tr2 books'))
            = fetched ?tr2 @ map (page_url url) (take k pages)"
          by blast
        from \<open>site (page_url url page) = Inr cs\<close> False Inr f
        have "fetched (fst (scrape_pages site url (page # pages) tr books))
            = fetched tr @ map (page_url url) (take (Suc k) (page # pages))"
          by (simp add: Let_def)
        with k show ?thesis by (intro exI [of _ "Suc k"]) simp
      qed
    qed
  qed
qed

lemma take_upto: "k \<le> length [1..m] \<Longrightarrow> take k [1..m] = [1..int k]"
proof (induction k)
  case 0
  show ?case by simp
next
  case (Suc k)
  then have lt: "k < length [1..m]" and "take k [1..m] = [1..int k]" by simp_all
  moreover have "[1..m] ! k = 1 + int k"
    using lt by (simp add: nth_upto)
  moreover have "[1..int (Suc k)] = [1..int k] @ [int k + 1]"
    by (simp add: upto_rec2)
  ultimately show ?case
    by (simp add: take_Suc_conv_app_nth add.commute)
qed

lemma scrape_pages_passed:
  "list_all2 (page_yields site url) ps rss \<Longrightarrow>
     scrape_pages site url (ps @ qs) tr books
       = scrape_pages site url qs (passed url ps rss tr) (books @ concat rss)"
proof (induction ps arbitrary: rss tr books)
  case Nil
  then show ?case by (simp add: passed_def)
next
  case (Cons p ps)
  from Cons.prems obtain rs rss' where rss: "rss = rs # rss'"
    and p: "page_yields site url p rs"
    and rest: "list_all2 (page_yields site url) ps rss'"
    by (auto simp: list_all2_Cons1)
  from p obtain cs where cs: "site (page_url url p) = Inr cs" "cs \<noteq> []"
    "extract_books cs [] = Inr rs"
    by (auto simp: page_yields_def split: sum.splits)
  from cs(3) have ex: "extract_books cs books = Inr (books @ rs)"
    by (subst extract_books_acc) simp
  from cs(3) have len: "length rs = length cs"
    using extract_books_length [of cs "[]" rs] by simp
  let ?tr2 = "tr\<lparr>fetched := fetched tr @ [page_url url p],
                  printed := printed tr @ [Scraping_page p, Found_books (length cs) p]\<rparr>"
  have step: "scrape_pages site url ((p # ps) @ qs) tr books
      = scrape_pages site url (ps @ qs) ?tr2 (books @ rs)"
    using cs(1,2) ex by (simp add: Let_def)
  have tr: "passed url ps rss' ?tr2 = passed url (p # ps) rss tr"
    by (simp add: passed_def rss len)
  show ?case
    using Cons.IH [OF rest, of ?tr2 "books @ rs"] step tr
    by (simp add: rss)
qed

lemma scrape_books_passed:
  assumes "1 \<le> n" and "n \<le> max_pages"
    and "list_all2 (page_yields site url) [1..n - 1] rss"
  shows "scrape_books site url max_pages
    = scrape_pages site url (n # [n + 1..max_pages])
        (passed url [1..n - 1] rss \<lparr>fetched = [], printed = []\<rparr>) (concat rss)"
proof -
  from assms(1,2) have "[1..max_pages] = [1..n - 1] @ n # [n + 1..max_pages]"
    by (rule upto_split3)
  then show ?thesis
    using scrape_pages_passed [OF assms(3), of "n # [n + 1..max_pages]"
        "\<lparr>fetched = [], printed = []\<rparr>" "[]"]
    by (simp add: scrape_books_def)
qed

lemma upto_snoc: "1 \<le> n \<Longrightarrow> [1..n] = [1..n - 1] @ [n]"
  by (simp add: upto_rec2)

lemma book_record_T1: "book_record book_T1 = Inr record_T1"
  by (simp add: book_record_def book_T1_def record_T1_def book_title_def book_price_def
      book_rating_def rating_text_of_def rating_get_def rating_map_def text_of_def
      remove_char_def pound_def float_defs)

lemma book_record_T2: "book_record book_T2 = Inr record_T2"
  by (simp add: book_record_def book_T2_def record_T2_def book_title_def book_price_def
      book_rating_def rating_text_of_def rating_get_def rating_map_def text_of_def
      remove_char_def pound_def float_defs)

lemma book_record_bare:
  "book_record book_bare = Inr \<lparr>b_title = na, b_price = Finite 0, b_rating = 0\<rparr>"
  by (simp add: book_record_def book_bare_def book_title_def book_price_def book_rating_def)

lemma book_record_free: "book_record book_free = Inl ValueError"
  by (simp add: book_record_def book_free_def book_title_def book_price_def text_of_def
      remove_char_def pound_def float_defs)

lemma book_record_untitled: "book_record book_untitled = Inl AttributeError"
  by (simp add: book_record_def book_untitled_def book_title_def)

lemma books_page_1: "page_url books_url 1 = books_url"
  by (simp add: page_url_def)

lemma books_page_2: "page_url books_url 2 = lit ''https://books.toscrape.com/catalogue/page-2.html''"
  by (simp add: page_url_def books_url_def str_int_def str_nat.simps lit_def)


lemma books_urls_distinct:
  "lit ''https://books.toscrape.com/catalogue/page-2.html'' \<noteq> books_url"
  "lit ''https://books.toscrape.com/catalogue/page-3.html'' \<noteq> books_url"
  "lit ''https://books.toscrape.com/catalogue/page-3.html''
     \<noteq> lit ''https://books.toscrape.com/catalogue/page-2.html''"
  by (simp_all add: books_url_def lit_def)

lemma yields_two_books_1: "page_yields site_two_books books_url 1 [record_T1, record_T2]"
  by (simp add: page_yields_def books_page_1 site_two_books_def book_record_T1 book_record_T2)



lemma upto_1_1: "[1..2 - 1] = [1::int]" "[1..3 - 1] = [1, 2::int]" "[1..2] = [1, 2::int]"
  "[1..3] = [1, 2, 3::int]" "[1..1] = [1::int]"
  by (simp_all add: upto_rec1)



lemma site_two_books_2:
  "site_two_books (lit ''https://books.toscrape.com/catalogue/page-2.html'') = Inr []"
  by (simp add: site_two_books_def books_urls_distinct)

section \<open>Claims about the pagination\<close>

text \<open>
  C3. A run of \<open>scrape_books\<close> passes at most \<open>max_pages\<close> URLs to \<open>requests.get\<close>,
  whatever the site answers and also when the extraction raises: they are the URLs of
  the pages 1 to \<open>k\<close> for some \<open>k\<close> up to \<open>max_pages\<close> (none when \<open>max_pages\<close> is not
  positive). With \<open>max_pages = 1\<close> and a first page that has containers, the base URL is
  fetched and nothing else, and the run ends with the outcome of extracting that page.
\<close>

theorem pages_bounded:
  "length (fetched (fst (scrape_books site url max_pages))) \<le> nat max_pages
   \<and> (\<exists>k\<le>nat max_pages.
         fetched (fst (scrape_books site url max_pages)) = map (page_url url) [1..int k])
   \<and> (site url = Inr cs \<and> cs \<noteq> [] \<longrightarrow>
         fetched (fst (scrape_books site url 1)) = [url]
         \<and> snd (scrape_books site url 1) = extract_books cs [])"
proof -
  from scrape_pages_fetched [of "[1..max_pages]" site url "\<lparr>fetched = [], printed = []\<rparr>" "[]"]
  obtain k where k: "k \<le> length [1..max_pages]"
    and f: "fetched (fst (scrape_books site url max_pages))
      = map (page_url url) (take k [1..max_pages])"
    by (auto simp: scrape_books_def)
  from k have k': "k \<le> nat max_pages" by simp
  from f take_upto [OF k]
  have f': "fetched (fst (scrape_books site url max_pages)) = map (page_url url) [1..int k]"
    by simp
  then have "length (fetched (fst (scrape_books site url max_pages))) = k" by simp
  with k' have a: "length (fetched (fst (scrape_books site url max_pages))) \<le> nat max_pages"
    by simp
  from k' f' have b: "\<exists>k\<le>nat max_pages.
      fetched (fst (scrape_books site url max_pages)) = map (page_url url) [1..int k]"
    by blast
  have one: "[1..1::int] = [1]" by (simp add: upto_rec1)
  have c: "site url = Inr cs \<and> cs \<noteq> [] \<longrightarrow>
      fetched (fst (scrape_books site url 1)) = [url]
      \<and> snd (scrape_books site url 1) = extract_books cs []"
    by (simp add: scrape_books_def one page_url_def Let_def split: sum.splits)
  from a b c show ?thesis by blast
qed

theorem pages_bounded_witness:
  "site_two_books books_url = Inr [book_T1, book_T2] \<and> [book_T1, book_T2] \<noteq> []
   \<and> fetched (fst (scrape_books site_two_books books_url 1)) = [books_url]
   \<and> snd (scrape_books site_two_books books_url 1) = Inr [record_T1, record_T2]
   \<and> length (fetched (fst (scrape_books site_two_books books_url 1))) \<le> nat 1"
  using pages_bounded [where site = site_two_books and url = books_url and max_pages = 1
      and cs = "[book_T1, book_T2]"]
  by (simp add: site_two_books_def book_record_T1 book_record_T2)

text \<open>
  C4. Extracting no container leaves the list of records as it is. When the page fetched
  has no container, the loop prints that no books were found and returns the records
  collected before, without fetching a page of the rest of the range and without an
  exception. For a whole run: when the pages 1 to \<open>n - 1\<close> are passed and page \<open>n\<close> is
  within the bound and has no container, the run fetches exactly the pages 1 to \<open>n\<close>,
  its last printed line is the one for the empty page, and it returns the records of
  the pages before.
\<close>

theorem empty_page_stops:
  "extract_books [] books = Inr books
   \<and> (site (page_url url page) = Inr [] \<longrightarrow>
        scrape_pages site url (page # pages) tr books
          = (tr\<lparr>fetched := fetched tr @ [page_url url page],
                printed := printed tr @ [Scraping_page page, No_books_found page]\<rparr>,
             Inr books))
   \<and> (1 \<le> n \<and> n \<le> max_pages \<and> list_all2 (page_yields site url) [1..n - 1] rss
        \<and> site (page_url url n) = Inr [] \<longrightarrow>
        scrape_books site url max_pages
          = (\<lparr>fetched = map (page_url url) [1..n],
               printed = concat (map (\<lambda>(p, rs). [Scraping_page p, Found_books (length rs) p])
                                  (zip [1..n - 1] rss))
                         @ [Scraping_page n, No_books_found n]\<rparr>,
             Inr (concat rss)))"
proof -
  have a: "extract_books [] books = Inr books" by simp
  have b: "site (page_url url page) = Inr [] \<longrightarrow>
        scrape_pages site url (page # pages) tr books
          = (tr\<lparr>fetched := fetched tr @ [page_url url page],
                printed := printed tr @ [Scraping_page page, No_books_found page]\<rparr>,
             Inr books)"
    by (simp add: Let_def)
  have c: "scrape_books site url max_pages
          = (\<lparr>fetched = map (page_url url) [1..n],
               printed = concat (map (\<lambda>(p, rs). [Scraping_page p, Found_books (length rs) p])
                                  (zip [1..n - 1] rss))
                         @ [Scraping_page n, No_books_found n]\<rparr>,
             Inr (concat rss))"
    if h: "1 \<le> n" "n \<le> max_pages" "list_all2 (page_yields site url) [1..n - 1] rss"
      "site (page_url url n) = Inr []"
    using scrape_books_passed [OF h(1,2,3)] h(4) upto_snoc [OF h(1)]
    by (simp add: Let_def passed_def)
  from a b c show ?thesis by blast
qed

theorem empty_page_stops_witness:
  "(1::int) \<le> 2 \<and> (2::int) \<le> 50
   \<and> list_all2 (page_yields site_two_books books_url) [1..2 - 1] [[record_T1, record_T2]]
   \<and> site_two_books (page_url books_url 2) = Inr []
   \<and> scrape_books site_two_books books_url 50
       = (\<lparr>fetched = [books_url, lit ''https://books.toscrape.com/catalogue/page-2.html''],
            printed = [Scraping_page 1, Found_books 2 1, Scraping_page 2, No_books_found 2]\<rparr>,
          Inr [record_T1, record_T2])"
  using empty_page_stops [where site = site_two_books and url = books_url and n = 2
      and max_pages = 50 and rss = "[[record_T1, record_T2]]"]
  by (simp add: upto_1_1 yields_two_books_1 books_page_1 books_page_2 site_two_books_2
      numeral_2_eq_2)



section \<open>Prices and records: auxiliary facts\<close>






lemma extract_books_all2:
  "list_all2 (\<lambda>b r. book_record b = Inr r) bs rs \<Longrightarrow> extract_books bs acc = Inr (acc @ rs)"
proof (induction bs arbitrary: rs acc)
  case Nil
  then show ?case by simp
next
  case (Cons b bs)
  from Cons.prems obtain r rs' where rs: "rs = r # rs'" and r: "book_record b = Inr r"
    and rest: "list_all2 (\<lambda>b r. book_record b = Inr r) bs rs'"
    by (auto simp: list_all2_Cons1)
  from Cons.IH [OF rest, of "acc @ [r]"] show ?case
    by (simp add: r rs)
qed

lemma extract_books_raise:
  assumes "list_all2 (\<lambda>b r. book_record b = Inr r) bs1 rs" and "book_record b = Inl e"
  shows "extract_books (bs1 @ b # bs2) acc = Inl e"
  using assms
proof (induction bs1 arbitrary: rs acc)
  case Nil
  then show ?case by simp
next
  case (Cons c cs)
  from Cons.prems(1) obtain r rs' where r: "book_record c = Inr r"
    and rest: "list_all2 (\<lambda>b r. book_record b = Inr r) cs rs'"
    by (auto simp: list_all2_Cons1)
  from Cons.IH [OF rest Cons.prems(2), of "acc @ [r]"] show ?case
    by (simp add: r)
qed

lemma scrape_elements_concat:
  "scrape_elements base es acc = acc @ concat (map (product_records base) es)"
  by (induction es arbitrary: acc) simp_all

lemma take_200_na: "take 200 d = na \<Longrightarrow> d = na"
proof (cases "length d \<le> 200")
  case True
  assume "take 200 d = na"
  with True show ?thesis by simp
next
  case False
  assume h: "take 200 d = na"
  from False have "length (take 200 d) = 200" by simp
  with h have "length na = 200" by simp
  then show ?thesis by (simp add: na_def lit_def)
qed

lemma product_records_guard:
  "r \<in> set (product_records base e) \<Longrightarrow> p_title r \<noteq> na \<or> p_description r \<noteq> na"
  using take_200_na [of "product_description e"]
  by (auto simp: product_records_def Let_def split: if_splits)






lemma book_free_parts:
  "book_title (bn_h3 book_free) = Inr (lit ''T3'')"
  "book_price (bn_price book_free) = Inl ValueError"
  by (simp_all add: book_free_def book_title_def book_price_def text_of_def
      remove_char_def pound_def float_defs)


lemma card_empty_fields:
  "product_title card_empty = na" "product_description card_empty = na"
  "product_category card_empty = na" "product_link base card_empty = na"
  "product_records base card_empty = []"
  by (simp_all add: card_empty_def product_title_def product_description_def
      product_category_def product_link_def product_records_def resolve_link_def)

lemma card_titled_record:
  "product_records shop_url card_titled
     = [\<lparr>p_title = lit ''ThinFeel'', p_description = na, p_category = na,
         p_link = lit ''https://www.durex.co.uk/products/thin-feel''\<rparr>]"
  by (simp add: card_titled_def product_title_def product_description_def
      product_category_def product_link_def product_records_def resolve_link_def
      get_text_strip_def strip_def is_space_def join_url_def rstrip_char_def lstrip_char_def
      startswith_def shop_url_def slash_def lit_def na_def Let_def)

lemma shop_products:
  "scrape_products shop shop_url
     = [\<lparr>p_title = lit ''ThinFeel'', p_description = na, p_category = na,
         p_link = lit ''https://www.durex.co.uk/products/thin-feel''\<rparr>]"
  by (simp add: scrape_products_def get_page_content_def shop_def card_empty_fields
      card_titled_record)

lemma upto_1_50: "[1..50::int] = 1 # [2..50]"
  by (subst upto_rec1) simp_all

lemma book_bare_parts:
  "bn_h3 book_bare = Some (Heading (Some (Anchor None)))" "bn_price book_bare = None"
  "bn_rating book_bare = None"
  by (simp_all add: book_bare_def)

lemma card_empty_parts:
  "pn_title_kw card_empty = None" "pn_title_any card_empty = None" "pn_desc card_empty = None"
  "pn_category card_empty = None" "pn_href card_empty = None"
  by (simp_all add: card_empty_def)

section \<open>Claims about extraction\<close>




text \<open>
  C2, as the code has it. In durex\_scraper.py every element is handled on its own (the
  records of a list of elements are those of the elements before, of the element and of
  the elements after, in this order), and a title, description, category or link that is
  not found becomes the sentinel. In book\_scraper.py an anchor without \<open>title\<close>
  attribute gives the sentinel title, a missing price element the price 0, a missing
  rating element or a class list with fewer than two entries the rating 0, and the
  record is built from the three fields; when every container of a page gives a record,
  the page gives all of them. A price text that \<open>float\<close> rejects aborts the extraction
  of the page with that exception, whatever containers follow.
\<close>

theorem partial_record_tolerance:
  "scrape_elements base_url (es1 @ e # es2) []
     = scrape_elements base_url es1 [] @ product_records base_url e
       @ scrape_elements base_url es2 []
   \<and> (pn_title_kw e = None \<and> pn_title_any e = None \<longrightarrow> product_title e = na)
   \<and> (pn_desc e = None \<longrightarrow> product_description e = na)
   \<and> (pn_category e = None \<longrightarrow> product_category e = na)
   \<and> (pn_href e = None \<longrightarrow> product_link base_url e = na)
   \<and> (bn_h3 b = Some (Heading (Some (Anchor None))) \<longrightarrow> book_title (bn_h3 b) = Inr na)
   \<and> (bn_price b = None \<longrightarrow> book_price (bn_price b) = Inr (Finite 0))
   \<and> (bn_rating b = None \<or> (\<exists>cs. bn_rating b = Some cs \<and> length cs < 2) \<longrightarrow>
        book_rating (bn_rating b) = 0)
   \<and> (book_title (bn_h3 b) = Inr t \<and> book_price (bn_price b) = Inr p \<longrightarrow>
        book_record b = Inr \<lparr>b_title = t, b_price = p, b_rating = book_rating (bn_rating b)\<rparr>)
   \<and> (list_all2 (\<lambda>b r. book_record b = Inr r) bs rs \<longrightarrow> extract_books bs [] = Inr rs)
   \<and> (list_all2 (\<lambda>b r. book_record b = Inr r) bs rs \<and> book_title (bn_h3 b) = Inr t
        \<and> book_price (bn_price b) = Inl x \<longrightarrow>
        extract_books (bs @ b # bs') [] = Inl x)"
proof -
  have a: "scrape_elements base_url (es1 @ e # es2) []
     = scrape_elements base_url es1 [] @ product_records base_url e
       @ scrape_elements base_url es2 []"
    by (simp add: scrape_elements_concat)
  have b: "pn_title_kw e = None \<and> pn_title_any e = None \<longrightarrow> product_title e = na"
    by (simp add: product_title_def)
  have c: "pn_desc e = None \<longrightarrow> product_description e = na"
    by (simp add: product_description_def)
  have d: "pn_category e = None \<longrightarrow> product_category e = na"
    by (simp add: product_category_def)
  have f: "pn_href e = None \<longrightarrow> product_link base_url e = na"
    by (simp add: product_link_def resolve_link_def)
  have g: "bn_h3 b = Some (Heading (Some (Anchor None))) \<longrightarrow> book_title (bn_h3 b) = Inr na"
    by (simp add: book_title_def)
  have h: "bn_price b = None \<longrightarrow> book_price (bn_price b) = Inr (Finite 0)"
    by (simp add: book_price_def)
  have i: "bn_rating b = None \<or> (\<exists>cs. bn_rating b = Some cs \<and> length cs < 2) \<longrightarrow>
        book_rating (bn_rating b) = 0"
    by (auto simp: book_rating_def rating_text_of_def rating_get_def rating_map_def)
  have j: "book_title (bn_h3 b) = Inr t \<and> book_price (bn_price b) = Inr p \<longrightarrow>
        book_record b = Inr \<lparr>b_title = t, b_price = p, b_rating = book_rating (bn_rating b)\<rparr>"
    by (simp add: book_record_def)
  have k: "list_all2 (\<lambda>b r. book_record b = Inr r) bs rs \<longrightarrow> extract_books bs [] = Inr rs"
    using extract_books_all2 [of bs rs "[]"] by simp
  have l: "extract_books (bs @ b # bs') [] = Inl x"
    if "list_all2 (\<lambda>b r. book_record b = Inr r) bs rs" "book_title (bn_h3 b) = Inr t"
      "book_price (bn_price b) = Inl x"
  proof -
    from that(2,3) have "book_record b = Inl x" by (simp add: book_record_def)
    with that(1) show ?thesis by (rule extract_books_raise)
  qed
  from a b c d f g h i j k l show ?thesis by blast
qed

theorem partial_record_tolerance_witness:
  "pn_title_kw card_empty = None \<and> pn_title_any card_empty = None \<and> pn_desc card_empty = None
   \<and> pn_category card_empty = None \<and> pn_href card_empty = None
   \<and> product_title card_empty = na \<and> product_description card_empty = na
   \<and> product_category card_empty = na \<and> product_link shop_url card_empty = na
   \<and> scrape_elements shop_url ([card_titled] @ card_empty # [card_titled]) []
       = scrape_elements shop_url [card_titled] [] @ scrape_elements shop_url [card_titled] []
   \<and> bn_h3 book_bare = Some (Heading (Some (Anchor None))) \<and> bn_price book_bare = None
   \<and> bn_rating book_bare = None
   \<and> book_record book_bare = Inr \<lparr>b_title = na, b_price = Finite 0, b_rating = 0\<rparr>
   \<and> list_all2 (\<lambda>b r. book_record b = Inr r) [book_T1, book_T2] [record_T1, record_T2]
   \<and> extract_books [book_T1, book_T2] [] = Inr [record_T1, record_T2]
   \<and> book_title (bn_h3 book_free) = Inr (lit ''T3'')
   \<and> book_price (bn_price book_free) = Inl ValueError
   \<and> extract_books ([book_T1, book_T2] @ book_free # [book_T1]) [] = Inl ValueError"
  using partial_record_tolerance [where base_url = shop_url and e = card_empty
      and ?es1.0 = "[card_titled]" and ?es2.0 = "[card_titled]" and b = book_bare and t = na
      and p = "Finite 0" and bs = "[book_T1, book_T2]" and rs = "[record_T1, record_T2]"]
    partial_record_tolerance [where b = book_free and t = "lit ''T3''" and x = ValueError
      and bs = "[book_T1, book_T2]" and rs = "[record_T1, record_T2]" and bs' = "[book_T1]"]
  by (simp add: card_empty_parts card_empty_fields book_bare_parts book_record_T1
      book_record_T2 book_free_parts book_record_bare)

text \<open>
  C2 as stated fails in book\_scraper.py: a first container whose price text is \<open>Free\<close>
  makes the whole run raise \<open>ValueError\<close>, although the second container is well formed;
  a container without \<open>h3\<close> raises \<open>AttributeError\<close> in the same way.
\<close>

theorem partial_record_tolerance_counterexample:
  "site_free books_url = Inr [book_free, book_T1]
   \<and> book_record book_T1 = Inr record_T1
   \<and> snd (scrape_books site_free books_url 50) = Inl ValueError
   \<and> extract_books [book_untitled, book_T1] [] = Inl AttributeError"
  by (simp add: scrape_books_def upto_1_50 Let_def site_free_def book_record_free
      book_record_T1 book_record_untitled)

text \<open>
  C8, as the code has it. Every record that \<open>scrape_products\<close> returns has a title other
  than the sentinel or a description other than the sentinel, and an element gives no
  record exactly when both its title and its description are the sentinel.
  \<open>scrape_books\<close> has no such guard: a page whose containers are all extracted gives one
  record for each container. The title of a record is a string in both.
\<close>

theorem record_emission:
  "(\<forall>r \<in> set (scrape_products site base). p_title r \<noteq> na \<or> p_description r \<noteq> na)
   \<and> (product_records base e = [] \<longleftrightarrow> product_title e = na \<and> product_description e = na)
   \<and> (extract_books bs [] = Inr rs \<longrightarrow> length rs = length bs)"
proof -
  have a: "\<forall>r \<in> set (scrape_products site base). p_title r \<noteq> na \<or> p_description r \<noteq> na"
    using product_records_guard
    by (auto simp: scrape_products_def get_page_content_def scrape_elements_concat
        split: sum.splits)
  have b: "product_records base e = [] \<longleftrightarrow> product_title e = na \<and> product_description e = na"
    by (simp add: product_records_def Let_def)
  have c: "extract_books bs [] = Inr rs \<longrightarrow> length rs = length bs"
    using extract_books_length [of bs "[]" rs] by simp
  from a b c show ?thesis by blast
qed

theorem record_emission_witness:
  "product_title card_empty = na \<and> product_description card_empty = na
   \<and> product_records shop_url card_empty = []
   \<and> scrape_products shop shop_url
       = [\<lparr>p_title = lit ''ThinFeel'', p_description = na, p_category = na,
           p_link = lit ''https://www.durex.co.uk/products/thin-feel''\<rparr>]
   \<and> lit ''ThinFeel'' \<noteq> na
   \<and> extract_books [book_T1, book_bare] []
       = Inr [record_T1, \<lparr>b_title = na, b_price = Finite 0, b_rating = 0\<rparr>]
   \<and> length [record_T1, \<lparr>b_title = na, b_price = Finite 0, b_rating = 0\<rparr>]
       = length [book_T1, book_bare]"
  using record_emission [where site = shop and base = shop_url and e = card_empty
      and bs = "[book_T1, book_bare]"
      and rs = "[record_T1, \<lparr>b_title = na, b_price = Finite 0, b_rating = 0\<rparr>]"]
  by (simp add: card_empty_fields shop_products book_record_T1 book_record_bare)

text \<open>
  C8 as stated fails in book\_scraper.py: a container whose anchor has no \<open>title\<close>
  attribute, and that has no description, still gives a record, with the sentinel title.
\<close>

theorem record_emission_counterexample:
  "extract_books [book_bare] [] = Inr [\<lparr>b_title = na, b_price = Finite 0, b_rating = 0\<rparr>]
   \<and> snd (scrape_books (\<lambda>u. Inr [book_bare]) books_url 1)
       = Inr [\<lparr>b_title = na, b_price = Finite 0, b_rating = 0\<rparr>]"
  by (simp add: book_record_bare scrape_books_def upto_1_1 Let_def)

end
